theory Spec2Isabelle
  imports Main "HOL-Library.Sublist" "HOL-Library.Multiset"
begin

section \<open>Configuration constants (config.py, convert\_pdf\_files.py)\<close>

definition IMAGES_DIR_NAME :: string where
  "IMAGES_DIR_NAME = ''images''"

definition TEMP_DIR_PREFIX :: string where
  "TEMP_DIR_PREFIX = ''temp_''"

definition IMAGE_EXTENSIONS :: "string list" where
  "IMAGE_EXTENSIONS = [''.png'', ''.jpg'', ''.jpeg'', ''.gif'', ''.bmp'']"

section \<open>Strings and paths\<close>

text \<open>
  Paths are strings and are compared literally, with the POSIX separator.
  \<open>path_join\<close> is \<open>os.path.join\<close> on two arguments, \<open>basename\<close> is
  \<open>os.path.basename\<close>, \<open>splitext\<close> is \<open>os.path.splitext\<close> (a name made of
  leading dots only has no extension).
\<close>

type_synonym path = string

definition sep_end :: "path \<Rightarrow> path" where
  "sep_end a = (if a = [] \<or> last a = CHR ''/'' then a else a @ ''/'')"

definition path_join :: "path \<Rightarrow> path \<Rightarrow> path" where
  "path_join a b = (if b \<noteq> [] \<and> hd b = CHR ''/'' then b else sep_end a @ b)"

definition basename :: "path \<Rightarrow> string" where
  "basename p = rev (takeWhile (\<lambda>c. c \<noteq> CHR ''/'') (rev p))"

definition splitext :: "path \<Rightarrow> string \<times> string" where
  "splitext p =
     (let name = basename p;
          e = length (takeWhile (\<lambda>c. c \<noteq> CHR ''.'') (rev name))
      in if CHR ''.'' \<in> set name
            \<and> list_ex (\<lambda>c. c \<noteq> CHR ''.'') (take (length name - e - 1) name)
         then (take (length p - e - 1) p, drop (length p - e - 1) p)
         else (p, []))"

text \<open>\<open>str\<close> of a Python integer: decimal digits, with a minus sign when negative.\<close>

definition digit_char :: "nat \<Rightarrow> char" where
  "digit_char d = ''0123456789'' ! d"

fun str_nat :: "nat \<Rightarrow> string" where
  "str_nat n = (if n < 10 then [digit_char n] else str_nat (n div 10) @ [digit_char (n mod 10)])"

declare str_nat.simps [simp del]

definition str_int :: "int \<Rightarrow> string" where
  "str_int i = (if i < 0 then CHR ''-'' # str_nat (nat (- i)) else str_nat (nat i))"

text \<open>\<open>str.lower\<close> on ASCII letters, \<open>str.endswith\<close> with a tuple of suffixes.\<close>

definition lower_char :: "char \<Rightarrow> char" where
  "lower_char c =
     (case map_of (zip ''ABCDEFGHIJKLMNOPQRSTUVWXYZ'' ''abcdefghijklmnopqrstuvwxyz'') c of
        Some l \<Rightarrow> l
      | None \<Rightarrow> c)"

definition lower :: "string \<Rightarrow> string" where
  "lower s = map lower_char s"

definition endswith :: "string \<Rightarrow> string \<Rightarrow> bool" where
  "endswith s e = (length e \<le> length s \<and> drop (length s - length e) s = e)"

definition endswith_any :: "string \<Rightarrow> string list \<Rightarrow> bool" where
  "endswith_any s es = list_ex (endswith s) es"

text \<open>
  \<open>str.replace(old, new)\<close>: the occurrences of \<open>old\<close> are found from the left and do
  not overlap. With an empty \<open>old\<close> Python puts \<open>new\<close> before every character and
  at the end.
\<close>

fun replace_from :: "string \<Rightarrow> string \<Rightarrow> nat \<Rightarrow> string \<Rightarrow> string" where
  "replace_from old new k [] = []"
| "replace_from old new k (c # cs) =
     (if k = 0 \<and> prefix old (c # cs) then new @ replace_from old new (length old - 1) cs
      else if k = 0 then c # replace_from old new 0 cs
      else replace_from old new (k - 1) cs)"

definition replace :: "string \<Rightarrow> string \<Rightarrow> string \<Rightarrow> string" where
  "replace s old new =
     (if old = [] then new @ concat (map (\<lambda>c. c # new) s) else replace_from old new 0 s)"

section \<open>Exceptions\<close>

text \<open>Each exception carries the text that \<open>str(e)\<close> yields.\<close>

datatype exn =
    ValueError string
  | FileNotFoundError string
  | FileExistsError string
  | NotADirectoryError string
  | IsADirectoryError string
  | EngineError string
  | ImportError string
  | AttributeError string

fun str_exn :: "exn \<Rightarrow> string" where
  "str_exn (ValueError m) = m"
| "str_exn (FileNotFoundError m) = m"
| "str_exn (FileExistsError m) = m"
| "str_exn (NotADirectoryError m) = m"
| "str_exn (IsADirectoryError m) = m"
| "str_exn (EngineError m) = m"
| "str_exn (ImportError m) = m"
| "str_exn (AttributeError m) = m"

section \<open>The filesystem\<close>

text \<open>
  The filesystem is a finite table from path strings to nodes, the first binding of a path
  being the live one. A directory exists when its own path is bound; parent links are not
  kept, and "below a directory" is a matter of the path string.

  \<^item> \<open>path_exists\<close> is \<open>os.path.exists\<close> (false on the empty path);
  \<^item> \<open>makedirs\<close> is \<open>os.makedirs(p, exist_ok=True)\<close>: it raises on the empty path
    and on a regular file;
  \<^item> \<open>rmtree\<close> is \<open>shutil.rmtree\<close>: it raises on a missing path and on a regular
    file, otherwise removes the directory and everything below it;
  \<^item> \<open>move\<close> is \<open>shutil.move\<close> of one node: the source is rebound under the
    destination name, replacing what is bound there (the case of a destination that is
    already a directory, into which the real call would move the source, is left out);
  \<^item> \<open>read_file\<close> and \<open>write_file\<close> are \<open>open(p).read()\<close> and
    \<open>open(p, 'w').write(c)\<close>;
  \<^item> \<open>listdir\<close> is \<open>os.listdir\<close>, in table order.
\<close>

datatype node = File string | Dir

type_synonym fs = "(path \<times> node) list"

definition lookup :: "fs \<Rightarrow> path \<Rightarrow> node option" where
  "lookup fs p = map_of fs p"

definition path_exists :: "fs \<Rightarrow> path \<Rightarrow> bool" where
  "path_exists fs p = (p \<noteq> [] \<and> lookup fs p \<noteq> None)"

definition unbind :: "path \<Rightarrow> fs \<Rightarrow> fs" where
  "unbind p fs = filter (\<lambda>e. fst e \<noteq> p) fs"

definition bind_node :: "path \<Rightarrow> node \<Rightarrow> fs \<Rightarrow> fs" where
  "bind_node p n fs = (p, n) # unbind p fs"

definition is_under :: "path \<Rightarrow> path \<Rightarrow> bool" where
  "is_under d p = (p = d \<or> prefix (sep_end d) p)"

definition makedirs :: "path \<Rightarrow> fs \<Rightarrow> exn + fs" where
  "makedirs p fs =
     (if p = [] then Inl (FileNotFoundError p)
      else case lookup fs p of
             Some (File c) \<Rightarrow> Inl (FileExistsError p)
           | Some Dir \<Rightarrow> Inr fs
           | None \<Rightarrow> Inr (bind_node p Dir fs))"

definition rmtree :: "path \<Rightarrow> fs \<Rightarrow> exn + fs" where
  "rmtree d fs =
     (case lookup fs d of
        None \<Rightarrow> Inl (FileNotFoundError d)
      | Some (File c) \<Rightarrow> Inl (NotADirectoryError d)
      | Some Dir \<Rightarrow> Inr (filter (\<lambda>e. \<not> is_under d (fst e)) fs))"

definition move :: "path \<Rightarrow> path \<Rightarrow> fs \<Rightarrow> exn + fs" where
  "move src dst fs =
     (case lookup fs src of
        None \<Rightarrow> Inl (FileNotFoundError src)
      | Some n \<Rightarrow> Inr (bind_node dst n (unbind src fs)))"

definition read_file :: "path \<Rightarrow> fs \<Rightarrow> exn + string" where
  "read_file p fs =
     (case lookup fs p of
        None \<Rightarrow> Inl (FileNotFoundError p)
      | Some Dir \<Rightarrow> Inl (IsADirectoryError p)
      | Some (File c) \<Rightarrow> Inr c)"

definition write_file :: "path \<Rightarrow> string \<Rightarrow> fs \<Rightarrow> exn + fs" where
  "write_file p c fs =
     (if p = [] then Inl (FileNotFoundError p)
      else case lookup fs p of
             Some Dir \<Rightarrow> Inl (IsADirectoryError p)
           | _ \<Rightarrow> Inr (bind_node p (File c) fs))"

definition child_name :: "path \<Rightarrow> path \<Rightarrow> string option" where
  "child_name d p =
     (let pre = sep_end d; name = drop (length pre) p
      in if d \<noteq> [] \<and> prefix pre p \<and> name \<noteq> [] \<and> CHR ''/'' \<notin> set name \<and> p \<noteq> d
         then Some name else None)"

definition listdir :: "path \<Rightarrow> fs \<Rightarrow> string list" where
  "listdir d fs = remdups (List.map_filter (\<lambda>e. child_name d (fst e)) fs)"

section \<open>The external collaborators\<close>

text \<open>
  The document-analysis engine is opaque. It is given the bytes of the source document and
  either raises or yields the markdown text and the extracted images (file name and
  bytes). Its answer may differ from one invocation to the next, so it is indexed by the
  number of invocations made so far (the state field \<open>engine_calls\<close>).
  The page-count probe stands for \<open>len(PdfReader(path).pages)\<close>; \<open>None\<close> is any
  exception of the reader.
\<close>

type_synonym engine = "nat \<Rightarrow> string \<Rightarrow> exn + (string \<times> (string \<times> string) list)"

type_synonym probe = "string \<Rightarrow> nat option"

section \<open>convert\_single\_pdf\_to\_md\<close>

text \<open>
  The image writer puts every image under the local image directory (the engine names its
  images relative to that directory), the markdown writer puts the markdown file under the
  output directory. A failure leaves behind what was written before it.
\<close>

fun write_images :: "path \<Rightarrow> (string \<times> string) list \<Rightarrow> fs \<Rightarrow> exn option \<times> fs" where
  "write_images d [] fs = (None, fs)"
| "write_images d (img # rest) fs =
     (case write_file (sep_end d @ fst img) (snd img) fs of
        Inl e \<Rightarrow> (Some e, fs)
      | Inr fs' \<Rightarrow> write_images d rest fs')"

definition convert_single_pdf_to_md ::
  "engine \<Rightarrow> path \<Rightarrow> path \<Rightarrow> string option \<Rightarrow> fs \<times> nat \<Rightarrow> (exn + path) \<times> fs \<times> nat" where
  "convert_single_pdf_to_md eng pdf_path output_dir output_name_opt w =
     (let fs = fst w; calls = snd w;
          output_name = (case output_name_opt of
                           None \<Rightarrow> fst (splitext (basename pdf_path))
                         | Some nm \<Rightarrow> nm);
          local_image_dir = path_join output_dir IMAGES_DIR_NAME
      in case makedirs local_image_dir fs of
           Inl e \<Rightarrow> (Inl e, fs, calls)
         | Inr fs1 \<Rightarrow>
        (case makedirs output_dir fs1 of
           Inl e \<Rightarrow> (Inl e, fs1, calls)
         | Inr fs2 \<Rightarrow>
        (case read_file pdf_path fs2 of
           Inl e \<Rightarrow> (Inl e, fs2, calls)
         | Inr pdf_bytes \<Rightarrow>
        (case eng calls pdf_bytes of
           Inl e \<Rightarrow> (Inl e, fs2, Suc calls)
         | Inr res \<Rightarrow>
        (case write_images local_image_dir (snd res) fs2 of
           (Some e, fs3) \<Rightarrow> (Inl e, fs3, Suc calls)
         | (None, fs3) \<Rightarrow>
        (let md_filename = output_name @ ''.md''
         in case write_file (path_join output_dir md_filename) (fst res) fs3 of
              Inl e \<Rightarrow> (Inl e, fs3, Suc calls)
            | Inr fs4 \<Rightarrow> (Inr (path_join output_dir md_filename), fs4, Suc calls)))))))"

section \<open>convert\_multiple\_pdfs\_to\_md\<close>

text \<open>Every \<open>print\<close> of the function is an event on the console.\<close>

datatype event =
    ForceRebuildDeleting path
  | PageCountWarning path
  | AlreadyConverted nat nat string
  | SkippingTooManyPages nat nat path int int
  | SkippingUndetermined nat nat path
  | Rule
  | ConvertingPages nat nat path int string
  | Converting nat nat path string
  | SuccessfullyConverted path
  | ErrorConverting path string
  | SummaryHeader
  | SummaryConverted int
  | SummaryAlready nat
  | SummarySkipped nat
  | SummaryTotal nat

record state =
  files :: fs
  engine_calls :: nat
  generated_files :: "path list"
  skipped_files :: "path list"
  already_converted_files :: "path list"
  console :: "event list"

definition get_pdf_page_count :: "probe \<Rightarrow> fs \<Rightarrow> path \<Rightarrow> int \<times> event list" where
  "get_pdf_page_count pr fs pdf_path =
     (case read_file pdf_path fs of
        Inl e \<Rightarrow> (0, [PageCountWarning pdf_path])
      | Inr b \<Rightarrow> (case pr b of
                    None \<Rightarrow> (0, [PageCountWarning pdf_path])
                  | Some k \<Rightarrow> (int k, [])))"

definition output_name :: "path \<Rightarrow> int \<Rightarrow> string" where
  "output_name pdf_path pdf_id = str_int pdf_id @ ''_'' @ fst (splitext (basename pdf_path))"

definition final_md_path :: "path \<Rightarrow> path \<Rightarrow> int \<Rightarrow> path" where
  "final_md_path out_dir pdf_path pdf_id = path_join out_dir (output_name pdf_path pdf_id @ ''.md'')"

definition temp_dir :: "path \<Rightarrow> nat \<Rightarrow> path" where
  "temp_dir out_dir i = path_join out_dir (TEMP_DIR_PREFIX @ str_nat i)"

definition is_image :: "string \<Rightarrow> bool" where
  "is_image image_file = endswith_any (lower image_file) IMAGE_EXTENSIONS"

definition new_image_name :: "string \<Rightarrow> string \<Rightarrow> string" where
  "new_image_name image_prefix image_file = image_prefix @ ''_'' @ image_file"

text \<open>Lines 181 to 194: the images of the working directory, in listing order.\<close>

fun relocate_images ::
  "path \<Rightarrow> path \<Rightarrow> string \<Rightarrow> path \<Rightarrow> string list \<Rightarrow> fs \<Rightarrow> exn option \<times> fs" where
  "relocate_images temp_images_dir images_dir image_prefix md_path [] fs = (None, fs)"
| "relocate_images temp_images_dir images_dir image_prefix md_path (image_file # rest) fs =
     (if is_image image_file then
        (let src_path = path_join temp_images_dir image_file;
             dst_path = path_join images_dir (new_image_name image_prefix image_file)
         in case move src_path dst_path fs of
              Inl e \<Rightarrow> (Some e, fs)
            | Inr fs1 \<Rightarrow>
           (case read_file md_path fs1 of
              Inl e \<Rightarrow> (Some e, fs1)
            | Inr content \<Rightarrow>
           (case write_file md_path
                   (replace content (IMAGES_DIR_NAME @ ''/'' @ image_file)
                      (IMAGES_DIR_NAME @ ''/'' @ new_image_name image_prefix image_file)) fs1 of
              Inl e \<Rightarrow> (Some e, fs1)
            | Inr fs2 \<Rightarrow>
                relocate_images temp_images_dir images_dir image_prefix md_path rest fs2)))
      else relocate_images temp_images_dir images_dir image_prefix md_path rest fs)"

definition listdir_checked :: "path \<Rightarrow> fs \<Rightarrow> exn + string list" where
  "listdir_checked d fs =
     (case lookup fs d of
        None \<Rightarrow> Inl (FileNotFoundError d)
      | Some (File c) \<Rightarrow> Inl (NotADirectoryError d)
      | Some Dir \<Rightarrow> Inr (listdir d fs))"

text \<open>Lines 172 to 196: the body of the \<open>try\<close>.\<close>

definition try_convert ::
  "engine \<Rightarrow> path \<Rightarrow> nat \<Rightarrow> path \<Rightarrow> int \<Rightarrow> fs \<times> nat \<Rightarrow> (exn + path) \<times> fs \<times> nat" where
  "try_convert eng out_dir i pdf_path pdf_id w =
     (let images_dir = path_join out_dir IMAGES_DIR_NAME;
          image_prefix = str_int pdf_id
      in case convert_single_pdf_to_md eng pdf_path (temp_dir out_dir i)
                (Some (output_name pdf_path pdf_id)) w of
           (Inl e, w1) \<Rightarrow> (Inl e, w1)
         | (Inr md_file, fs1, calls1) \<Rightarrow>
        (case move md_file (final_md_path out_dir pdf_path pdf_id) fs1 of
           Inl e \<Rightarrow> (Inl e, fs1, calls1)
         | Inr fs2 \<Rightarrow>
        (let temp_images_dir = path_join (temp_dir out_dir i) IMAGES_DIR_NAME
         in if path_exists fs2 temp_images_dir then
              (case listdir_checked temp_images_dir fs2 of
                 Inl e \<Rightarrow> (Inl e, fs2, calls1)
               | Inr names \<Rightarrow>
              (case relocate_images temp_images_dir images_dir image_prefix
                      (final_md_path out_dir pdf_path pdf_id) names fs2 of
                 (Some e, fs3) \<Rightarrow> (Inl e, fs3, calls1)
               | (None, fs3) \<Rightarrow> (Inr (final_md_path out_dir pdf_path pdf_id), fs3, calls1)))
            else (Inr (final_md_path out_dir pdf_path pdf_id), fs2, calls1))))"

text \<open>
  Lines 168 to 205: \<open>try\<close>, \<open>except Exception\<close>, \<open>finally\<close>. An exception of the
  body is printed and dropped; an exception of the cleanup leaves the function.
\<close>

definition convert_step ::
  "engine \<Rightarrow> path \<Rightarrow> nat \<Rightarrow> path \<Rightarrow> int \<Rightarrow> state \<Rightarrow> exn + state" where
  "convert_step eng out_dir i pdf_path pdf_id s =
     (case try_convert eng out_dir i pdf_path pdf_id (files s, engine_calls s) of
        (r, fs1, calls1) \<Rightarrow>
     (let s1 = (case r of
                  Inr md \<Rightarrow> s\<lparr>files := fs1, engine_calls := calls1,
                               generated_files := generated_files s @ [md],
                               console := console s @ [SuccessfullyConverted md]\<rparr>
                | Inl e \<Rightarrow> s\<lparr>files := fs1, engine_calls := calls1,
                              console := console s @ [ErrorConverting pdf_path (str_exn e)]\<rparr>)
      in if path_exists (files s1) (temp_dir out_dir i) then
           (case rmtree (temp_dir out_dir i) (files s1) of
              Inl e \<Rightarrow> Inl e
            | Inr fs2 \<Rightarrow> Inr (s1\<lparr>files := fs2\<rparr>))
         else Inr s1))"

text \<open>Lines 137 to 205: one round of the loop, for the request at position \<open>i\<close> of \<open>n\<close>.\<close>

definition loop_body ::
  "engine \<Rightarrow> probe \<Rightarrow> path \<Rightarrow> int option \<Rightarrow> bool \<Rightarrow> nat \<Rightarrow> nat \<Rightarrow> path \<times> int \<Rightarrow> state
     \<Rightarrow> exn + state" where
  "loop_body eng pr out_dir pages_max force_rebuild n i req s =
     (let pdf_path = fst req; pdf_id = snd req;
          md = final_md_path out_dir pdf_path pdf_id
      in if \<not> force_rebuild \<and> path_exists (files s) md then
           Inr (s\<lparr>console := console s @ [AlreadyConverted (i + 1) n (output_name pdf_path pdf_id)],
                  already_converted_files := already_converted_files s @ [md],
                  generated_files := generated_files s @ [md]\<rparr>)
         else
           (case pages_max of
              Some mx \<Rightarrow>
                (case get_pdf_page_count pr (files s) pdf_path of
                   (page_count, warn) \<Rightarrow>
                     if page_count > mx then
                       Inr (s\<lparr>console := console s @ warn
                                  @ [SkippingTooManyPages (i + 1) n pdf_path page_count mx],
                              skipped_files := skipped_files s @ [pdf_path]\<rparr>)
                     else if page_count = 0 then
                       Inr (s\<lparr>console := console s @ warn
                                  @ [SkippingUndetermined (i + 1) n pdf_path],
                              skipped_files := skipped_files s @ [pdf_path]\<rparr>)
                     else
                       convert_step eng out_dir i pdf_path pdf_id
                         (s\<lparr>console := console s @ warn
                               @ [Rule, ConvertingPages (i + 1) n pdf_path page_count
                                          (output_name pdf_path pdf_id)]\<rparr>))
            | None \<Rightarrow>
                convert_step eng out_dir i pdf_path pdf_id
                  (s\<lparr>console := console s
                        @ [Rule, Converting (i + 1) n pdf_path (output_name pdf_path pdf_id)]\<rparr>)))"

fun loop ::
  "engine \<Rightarrow> probe \<Rightarrow> path \<Rightarrow> int option \<Rightarrow> bool \<Rightarrow> nat \<Rightarrow> nat \<Rightarrow> (path \<times> int) list \<Rightarrow> state
     \<Rightarrow> exn + state" where
  "loop eng pr out_dir pages_max force_rebuild n i [] s = Inr s"
| "loop eng pr out_dir pages_max force_rebuild n i (req # reqs) s =
     (case loop_body eng pr out_dir pages_max force_rebuild n i req s of
        Inl e \<Rightarrow> Inl e
      | Inr s' \<Rightarrow> loop eng pr out_dir pages_max force_rebuild n (Suc i) reqs s')"

text \<open>Lines 114 to 121: the output directory is deleted on a forced rebuild, then created.\<close>

definition prepare_output :: "path \<Rightarrow> bool \<Rightarrow> fs \<Rightarrow> exn + fs \<times> event list" where
  "prepare_output out_dir force_rebuild fs =
     (case (if force_rebuild \<and> path_exists fs out_dir
            then (case rmtree out_dir fs of
                    Inl e \<Rightarrow> Inl e
                  | Inr fs' \<Rightarrow> Inr (fs', [ForceRebuildDeleting out_dir]))
            else Inr (fs, [])) of
        Inl e \<Rightarrow> Inl e
      | Inr (fs1, evs) \<Rightarrow>
     (case makedirs (path_join out_dir IMAGES_DIR_NAME) fs1 of
        Inl e \<Rightarrow> Inl e
      | Inr fs2 \<Rightarrow>
     (case makedirs out_dir fs2 of
        Inl e \<Rightarrow> Inl e
      | Inr fs3 \<Rightarrow> Inr (fs3, evs))))"

text \<open>Lines 206 to 213: the summary.\<close>

definition print_summary :: "int option \<Rightarrow> state \<Rightarrow> state" where
  "print_summary pages_max s =
     s\<lparr>console := console s
        @ [SummaryHeader,
           SummaryConverted (int (length (generated_files s)) - int (length (already_converted_files s)))]
        @ (if already_converted_files s \<noteq> [] then [SummaryAlready (length (already_converted_files s))] else [])
        @ (if pages_max \<noteq> None \<and> skipped_files s \<noteq> [] then [SummarySkipped (length (skipped_files s))] else [])
        @ [SummaryTotal (length (generated_files s))]\<rparr>"

text \<open>
  The function, run on a filesystem and an engine invocation count. The returned list is
  \<open>generated_files\<close> of the final state.
\<close>

definition convert_multiple_pdfs_to_md ::
  "engine \<Rightarrow> probe \<Rightarrow> path list \<Rightarrow> int list \<Rightarrow> path \<Rightarrow> int option \<Rightarrow> bool \<Rightarrow> fs \<Rightarrow> nat
     \<Rightarrow> exn + state" where
  "convert_multiple_pdfs_to_md eng pr fullpath_list id_list out_dir pages_max force_rebuild fs0 calls0 =
     (if length id_list \<noteq> length fullpath_list
      then Inl (ValueError ''Number of IDs must match number of PDF paths'')
      else case prepare_output out_dir force_rebuild fs0 of
             Inl e \<Rightarrow> Inl e
           | Inr (fs1, evs) \<Rightarrow>
          (case loop eng pr out_dir pages_max force_rebuild (length fullpath_list) 0
                  (zip fullpath_list id_list)
                  \<lparr>files = fs1, engine_calls = calls0, generated_files = [],
                   skipped_files = [], already_converted_files = [], console = evs\<rparr> of
             Inl e \<Rightarrow> Inl e
           | Inr s \<Rightarrow> Inr (print_summary pages_max s)))"

section \<open>Auxiliary definitions for the proofs\<close>

text \<open>
  The filesystem operations that one round of the loop may perform for the request
  \<open>(pdf, pid)\<close> at position \<open>i\<close>: everything it creates, writes, moves or deletes
  lies below its working directory, except the final markdown file and the prefixed
  images.
\<close>

inductive effects :: "path \<Rightarrow> nat \<Rightarrow> path \<Rightarrow> int \<Rightarrow> fs \<Rightarrow> fs \<Rightarrow> bool"
  for out :: path and i :: nat and pdf :: path and pid :: int where
    eff_refl: "effects out i pdf pid fs fs"
  | eff_makedirs:
      "is_under (temp_dir out i) p \<Longrightarrow> makedirs p fs = Inr fs1 \<Longrightarrow> effects out i pdf pid fs1 fs2
       \<Longrightarrow> effects out i pdf pid fs fs2"
  | eff_write:
      "is_under (temp_dir out i) p \<Longrightarrow> write_file p c fs = Inr fs1 \<Longrightarrow> effects out i pdf pid fs1 fs2
       \<Longrightarrow> effects out i pdf pid fs fs2"
  | eff_move_md:
      "is_under (temp_dir out i) src \<Longrightarrow> move src (final_md_path out pdf pid) fs = Inr fs1
       \<Longrightarrow> effects out i pdf pid fs1 fs2 \<Longrightarrow> effects out i pdf pid fs fs2"
  | eff_move_image:
      "is_under (temp_dir out i) src \<Longrightarrow> is_image f
       \<Longrightarrow> move src (path_join (path_join out IMAGES_DIR_NAME) (new_image_name (str_int pid) f)) fs = Inr fs1
       \<Longrightarrow> effects out i pdf pid fs1 fs2 \<Longrightarrow> effects out i pdf pid fs fs2"
  | eff_write_md:
      "read_file (final_md_path out pdf pid) fs = Inr c0
       \<Longrightarrow> write_file (final_md_path out pdf pid) c fs = Inr fs1
       \<Longrightarrow> effects out i pdf pid fs1 fs2 \<Longrightarrow> effects out i pdf pid fs fs2"
  | eff_rmtree:
      "rmtree (temp_dir out i) fs = Inr fs1 \<Longrightarrow> effects out i pdf pid fs1 fs2
       \<Longrightarrow> effects out i pdf pid fs fs2"


text \<open>The lines of the final summary: the console from the summary header on.\<close>

definition summary_lines :: "state \<Rightarrow> event list" where
  "summary_lines s = dropWhile (\<lambda>e. e \<noteq> SummaryHeader) (console s)"


section \<open>Example collaborators\<close>


definition steady_engine :: engine where
  "steady_engine k b =
     Inr (''see images/a.png and images/b.svg'', [(''a.png'', ''A''), (''b.svg'', ''B'')])"

definition failing_engine :: engine where
  "failing_engine k b = Inl (EngineError ''cannot parse'')"

definition byte_count_probe :: probe where
  "byte_count_probe b = (if b = [] then None else Some (length b))"

text \<open>An engine whose two images are named so that one name is the prefixed form of the other.\<close>

definition twin_engine :: engine where
  "twin_engine k b = Inr (''![](images/a.png)'', [(''5_a.png'', ''Q''), (''a.png'', ''P'')])"

section \<open>Loading the module convert\_pdf\_files\<close>

text \<open>
  \<open>config_names\<close> are the names that config.py binds, \<open>convert_pdf_files_imports\<close>
  the names that convert\_pdf\_files.py imports from it (lines 6 to 14).
  \<open>import_from\<close> is the statement \<open>from config import (...)\<close>: it raises at the first
  name that the module does not bind. The script part of the module (lines 218 to 232) runs
  after the imports: it keeps the rows of the metadata table whose content type is PDF and
  converts them.
\<close>

definition config_names :: "string list" where
  "config_names =
     [''ZOTERO_DATA_DIR'', ''ZOTERO_DB_PATH'', ''STORAGE_DIR_NAME'', ''MINERU_DIR'',
      ''MAGIC_PDF_CONFIG_FILENAME'', ''METADATA_CSV_FILENAME'', ''ANNOTATIONS_CSV_FILENAME'',
      ''DEFAULT_BATCH_OUTPUT_DIR'', ''IMAGES_DIR_NAME'', ''DEFAULT_ANNOTATIONS_OUTPUT_DIR'',
      ''DEFAULT_ENCODING'', ''DEFAULT_MAX_PAGES'']"

definition convert_pdf_files_imports :: "string list" where
  "convert_pdf_files_imports =
     [''MINERU_CONFIG_DIR'', ''MAGIC_PDF_CONFIG_FILENAME'', ''IMAGES_DIR_NAME'',
      ''METADATA_CSV_FILENAME'', ''DEFAULT_BATCH_OUTPUT_DIR'', ''DEFAULT_MAX_PAGES'',
      ''DEFAULT_ENCODING'']"

fun import_from :: "string list \<Rightarrow> string list \<Rightarrow> exn + unit" where
  "import_from module_names [] = Inr ()"
| "import_from module_names (nm # nms) =
     (if nm \<in> set module_names then import_from module_names nms
      else Inl (ImportError (''cannot import name '' @ nm)))"

definition DEFAULT_BATCH_OUTPUT_DIR :: string where
  "DEFAULT_BATCH_OUTPUT_DIR = ''fulltexts''"

definition DEFAULT_MAX_PAGES :: int where
  "DEFAULT_MAX_PAGES = 100"

record metadata_row =
  contentType :: string
  attachment_fullpath :: path
  attachment_id :: int

definition convert_pdf_files_module ::
  "engine \<Rightarrow> probe \<Rightarrow> metadata_row list \<Rightarrow> fs \<Rightarrow> nat \<Rightarrow> exn + state" where
  "convert_pdf_files_module eng pr metadata fs0 calls0 =
     (case import_from config_names convert_pdf_files_imports of
        Inl e \<Rightarrow> Inl e
      | Inr u \<Rightarrow>
          (let metadata_pdf = filter (\<lambda>r. contentType r = ''application/pdf'') metadata
           in convert_multiple_pdfs_to_md eng pr (map attachment_fullpath metadata_pdf)
                (map attachment_id metadata_pdf) DEFAULT_BATCH_OUTPUT_DIR (Some DEFAULT_MAX_PAGES)
                False fs0 calls0))"

section \<open>convert\_annotations.py\<close>

text \<open>
  A row of the annotations table as \<open>read_csv\<close> yields it. An empty cell is \<open>NaN\<close>,
  here \<open>None\<close>. The cells of the column \<open>page_label\<close> have one type, numbers or
  strings, which is the type parameter; \<open>label_str\<close> below stands for \<open>str\<close> on it.
\<close>

record 'l annotation =
  attachment_id :: int
  paper_id :: int
  paper_title :: "string option"
  attachment_path :: "string option"
  page_label :: "'l option"
  annotation_text :: "string option"
  annotation_comment :: "string option"
  annotation_type_name :: "string option"
  annotation_color :: "string option"

definition NL :: string where
  "NL = [CHR 0x0A]"

definition str_cell :: "string option \<Rightarrow> string" where
  "str_cell c = (case c of None \<Rightarrow> ''nan'' | Some s \<Rightarrow> s)"

definition str_page :: "('l \<Rightarrow> string) \<Rightarrow> 'l option \<Rightarrow> string" where
  "str_page label_str p = (case p of None \<Rightarrow> ''nan'' | Some k \<Rightarrow> label_str k)"

text \<open>\<open>str.title\<close> on ASCII: a letter after a letter is lowered, any other letter raised.\<close>

definition upper_char :: "char \<Rightarrow> char" where
  "upper_char c =
     (case map_of (zip ''abcdefghijklmnopqrstuvwxyz'' ''ABCDEFGHIJKLMNOPQRSTUVWXYZ'') c of
        Some u \<Rightarrow> u
      | None \<Rightarrow> c)"

definition is_letter :: "char \<Rightarrow> bool" where
  "is_letter c = (lower_char c \<noteq> c \<or> upper_char c \<noteq> c)"

fun title_from :: "bool \<Rightarrow> string \<Rightarrow> string" where
  "title_from prev [] = []"
| "title_from prev (c # cs) =
     (if is_letter c then (if prev then lower_char c else upper_char c) # title_from True cs
      else c # title_from False cs)"

definition title :: "string \<Rightarrow> string" where
  "title s = title_from False s"

text \<open>
  \<open>sort_values('page_label', na_position='last')\<close>: the rows without a label are put
  last, in their order; the rows with a label are ordered by the sorting routine of the
  library, which the call leaves at its default and which is the parameter \<open>srt\<close>.
\<close>

definition sort_values :: "('l annotation list \<Rightarrow> 'l annotation list) \<Rightarrow> 'l annotation list \<Rightarrow> 'l annotation list" where
  "sort_values srt rows =
     srt (filter (\<lambda>r. page_label r \<noteq> None) rows) @ filter (\<lambda>r. page_label r = None) rows"

text \<open>
  The pieces appended to \<open>markdown_content\<close>, one constructor for each \<open>append\<close> of
  the source, and the text of each piece.
\<close>

datatype 'l piece =
    TitleLine "string option"
  | AttachmentLine int
  | PaperLine int
  | PathLine "string option"
  | Separator
  | PageGap
  | PageHeader "'l option"
  | TypeHeading string
  | ColorTag "string option"
  | HeadingEnd
  | TextLine string
  | CommentLine string

fun str_piece :: "('l \<Rightarrow> string) \<Rightarrow> 'l piece \<Rightarrow> string" where
  "str_piece ls (TitleLine t) = ''# '' @ str_cell t @ NL @ NL"
| "str_piece ls (AttachmentLine a) = ''**Attachment ID:** '' @ str_int a @ ''  '' @ NL"
| "str_piece ls (PaperLine p) = ''**Paper ID:** '' @ str_int p @ ''  '' @ NL"
| "str_piece ls (PathLine p) = ''**File Path:** '' @ str_cell p @ ''  '' @ NL @ NL"
| "str_piece ls Separator = ''---'' @ NL @ NL"
| "str_piece ls PageGap = NL"
| "str_piece ls (PageHeader p) = ''## Page '' @ str_page ls p @ NL @ NL"
| "str_piece ls (TypeHeading t) = ''### '' @ t"
| "str_piece ls (ColorTag c) = '' `'' @ str_cell c @ ''`''"
| "str_piece ls HeadingEnd = NL @ NL"
| "str_piece ls (TextLine t) = ''**Text:** '' @ t @ NL @ NL"
| "str_piece ls (CommentLine c) = ''**Comment:** '' @ c @ NL @ NL"

text \<open>
  Truth of a cell in \<open>if cell:\<close>: \<open>NaN\<close> is true, a string is true when not empty.
  \<open>cell and pd.notna(cell)\<close> holds for a string that is not empty.
\<close>

definition truthy :: "string option \<Rightarrow> bool" where
  "truthy c = (case c of None \<Rightarrow> True | Some s \<Rightarrow> s \<noteq> [])"

definition present :: "string option \<Rightarrow> string list" where
  "present c = (case c of None \<Rightarrow> [] | Some s \<Rightarrow> if s \<noteq> [] then [s] else [])"

text \<open>The message of the exception that \<open>NaN.title()\<close> raises.\<close>

definition no_title_message :: string where
  "no_title_message =
     [CHR 0x27] @ ''float'' @ [CHR 0x27] @ '' object has no attribute '' @ [CHR 0x27] @ ''title'' @ [CHR 0x27]"

text \<open>
  Lines 56 to 83: the loop over the sorted rows. \<open>current_page\<close> is \<open>None\<close> before
  the first row, then the page of the last header; a page that is \<open>NaN\<close> differs from
  every value, itself included. \<open>annotation_type.title()\<close> raises on \<open>NaN\<close>.
\<close>

fun render_rows :: "'l option option \<Rightarrow> 'l annotation list \<Rightarrow> exn + 'l piece list" where
  "render_rows current_page [] = Inr []"
| "render_rows current_page (row # rows) =
     (let page = page_label row;
          new_page = (case page of None \<Rightarrow> True | Some k \<Rightarrow> current_page \<noteq> Some (Some k));
          header = (if new_page
                    then (if current_page \<noteq> None then [PageGap] else []) @ [PageHeader page]
                    else [])
      in case annotation_type_name row of
           None \<Rightarrow> Inl (AttributeError no_title_message)
         | Some ty \<Rightarrow>
            (case render_rows (if new_page then Some page else current_page) rows of
               Inl e \<Rightarrow> Inl e
             | Inr rest \<Rightarrow>
                 Inr (header @ [TypeHeading (title ty)]
                      @ (if truthy (annotation_color row) then [ColorTag (annotation_color row)] else [])
                      @ [HeadingEnd]
                      @ map TextLine (present (annotation_text row))
                      @ map CommentLine (present (annotation_comment row))
                      @ [Separator] @ rest)))"

text \<open>
  \<open>Path(p).mkdir(parents=True, exist_ok=True)\<close>: the empty path is the current
  directory, which exists.
\<close>

definition path_mkdir :: "path \<Rightarrow> fs \<Rightarrow> exn + fs" where
  "path_mkdir p fs = (if p = [] then Inr fs else makedirs p fs)"

datatype aevent =
    NoAnnotationsFound int
  | MarkdownCreated path
  | TotalAnnotations nat
  | BatchStarting nat
  | OutputDirectory path
  | RuleLine
  | Processing nat nat int
  | BatchNoAnnotations
  | BatchOk nat
  | BatchError string
  | BatchCompleted
  | SuccessfulCount nat nat
  | FailedCount nat nat
  | FailedAttachments
  | FailedAttachment int string

definition header_pieces :: "int \<Rightarrow> 'l annotation \<Rightarrow> 'l piece list" where
  "header_pieces aid paper_info =
     [TitleLine (paper_title paper_info), AttachmentLine aid, PaperLine (paper_id paper_info),
      PathLine (attachment_path paper_info), Separator]"


text \<open>\<open>process_all_attachments\<close>: the entries of the dictionary \<open>results\<close>.\<close>

datatype outcome =
    Success path nat "string option"
  | Failed string

definition dict_set :: "int \<Rightarrow> outcome \<Rightarrow> (int \<times> outcome) list \<Rightarrow> (int \<times> outcome) list" where
  "dict_set k v d =
     (if k \<in> fst ` set d then map (\<lambda>e. if fst e = k then (k, v) else e) d else d @ [(k, v)])"

record batch_state =
  bfiles :: fs
  results :: "(int \<times> outcome) list"
  successful :: nat
  failed :: nat
  bconsole :: "aevent list"

text \<open>Lines 134 to 208: one round of the loop, with its \<open>try\<close> and \<open>except\<close>.\<close>

definition batch_except :: "int \<Rightarrow> exn \<Rightarrow> batch_state \<Rightarrow> batch_state" where
  "batch_except aid e st =
     st\<lparr>bconsole := bconsole st @ [BatchError (str_exn e)],
        results := dict_set aid (Failed (str_exn e)) (results st),
        failed := failed st + 1\<rparr>"

definition process_attachment ::
  "('l annotation list \<Rightarrow> 'l annotation list) \<Rightarrow> ('l \<Rightarrow> string) \<Rightarrow> path \<Rightarrow> 'l annotation list
     \<Rightarrow> nat \<Rightarrow> nat \<Rightarrow> int \<Rightarrow> batch_state \<Rightarrow> batch_state" where
  "process_attachment srt label_str output_path annot n_total i aid st =
     (let st0 = st\<lparr>bconsole := bconsole st @ [Processing i n_total aid]\<rparr>;
          annot_sel = filter (\<lambda>r. attachment_id r = aid) annot
      in case annot_sel of
           [] \<Rightarrow> st0\<lparr>bconsole := bconsole st0 @ [BatchNoAnnotations],
                     results := dict_set aid (Failed ''No annotations found'') (results st0),
                     failed := failed st0 + 1\<rparr>
         | paper_info # others \<Rightarrow>
             (let sorted_sel = sort_values srt annot_sel
              in case render_rows None sorted_sel of
                   Inl e \<Rightarrow> batch_except aid e st0
                 | Inr body \<Rightarrow>
                (let output_file = path_join output_path (str_int aid @ ''.md'')
                 in case write_file output_file
                           (concat (map (str_piece label_str) (header_pieces aid paper_info @ body)))
                           (bfiles st0) of
                      Inl e \<Rightarrow> batch_except aid e st0
                    | Inr fs2 \<Rightarrow>
                        st0\<lparr>bfiles := fs2,
                            bconsole := bconsole st0 @ [BatchOk (length sorted_sel)],
                            results := dict_set aid
                               (Success output_file (length sorted_sel) (paper_title paper_info))
                               (results st0),
                            successful := successful st0 + 1\<rparr>)))"

fun process_loop ::
  "('l annotation list \<Rightarrow> 'l annotation list) \<Rightarrow> ('l \<Rightarrow> string) \<Rightarrow> path \<Rightarrow> 'l annotation list
     \<Rightarrow> nat \<Rightarrow> nat \<Rightarrow> int list \<Rightarrow> batch_state \<Rightarrow> batch_state" where
  "process_loop srt label_str output_path annot n_total i [] st = st"
| "process_loop srt label_str output_path annot n_total i (aid # aids) st =
     process_loop srt label_str output_path annot n_total (Suc i) aids
       (process_attachment srt label_str output_path annot n_total i aid st)"

definition failed_lines :: "(int \<times> outcome) list \<Rightarrow> aevent list" where
  "failed_lines d =
     concat (map (\<lambda>e. case snd e of Failed reason \<Rightarrow> [FailedAttachment (fst e) reason]
                              | Success p k t \<Rightarrow> []) d)"

definition process_all_attachments ::
  "('l annotation list \<Rightarrow> 'l annotation list) \<Rightarrow> ('l \<Rightarrow> string) \<Rightarrow> path
     \<Rightarrow> 'l annotation list option \<Rightarrow> fs \<Rightarrow> exn + batch_state" where
  "process_all_attachments srt label_str output_path csv fs =
     (case csv of
        None \<Rightarrow> Inl (FileNotFoundError ''CSV file not found'')
      | Some annot \<Rightarrow>
          (let attachment_ids = remdups (map attachment_id annot);
               total_attachments = length attachment_ids
           in case path_mkdir output_path fs of
                Inl e \<Rightarrow> Inl e
              | Inr fs1 \<Rightarrow>
                  (let st = process_loop srt label_str output_path annot total_attachments 1
                              (sort attachment_ids)
                              \<lparr>bfiles = fs1, results = [], successful = 0, failed = 0,
                               bconsole = [BatchStarting total_attachments,
                                           OutputDirectory output_path, RuleLine]\<rparr>
                   in Inr (st\<lparr>bconsole := bconsole st
                                @ [RuleLine, BatchCompleted,
                                   SuccessfulCount (successful st) total_attachments,
                                   FailedCount (failed st) total_attachments]
                                @ (if failed st > 0
                                   then FailedAttachments # failed_lines (results st) else [])\<rparr>))))"



text \<open>Two sorting routines: insertion sort, and insertion sort of the reversed list.\<close>

definition stable_sort :: "('l::linorder) annotation list \<Rightarrow> 'l annotation list" where
  "stable_sort xs = sort_key (\<lambda>r. the (page_label r)) xs"


definition page_headers :: "'l piece list \<Rightarrow> 'l option list" where
  "page_headers ps = concat (map (\<lambda>p. case p of PageHeader l \<Rightarrow> [l] | _ \<Rightarrow> []) ps)"

definition note_row :: "int \<Rightarrow> nat option \<Rightarrow> string \<Rightarrow> nat annotation" where
  "note_row aid page txt =
     \<lparr>attachment_id = aid, paper_id = 1, paper_title = Some ''T'', attachment_path = Some ''p.pdf'',
      page_label = page, annotation_text = Some txt, annotation_comment = None,
      annotation_type_name = Some ''highlight'', annotation_color = Some ''#ffd400''\<rparr>"








section \<open>Lemmas on the filesystem and on one round of the loop\<close>

lemma map_of_filter_fst:
  "map_of (filter (\<lambda>e. P (fst e)) fs) q = (if P q then map_of fs q else None)"
  by (induction fs) auto

lemma lookup_unbind: "lookup (unbind p fs) q = (if q = p then None else lookup fs q)"
  using map_of_filter_fst [of "\<lambda>x. x \<noteq> p" fs q] by (simp add: lookup_def unbind_def)

lemma lookup_bind_node: "lookup (bind_node p n fs) q = (if q = p then Some n else lookup fs q)"
  using lookup_unbind [of p fs q] by (simp add: bind_node_def lookup_def)

lemma lookup_makedirs:
  "makedirs p fs = Inr fs' \<Longrightarrow> lookup fs' q = (if q = p then Some Dir else lookup fs q)"
  by (auto simp: makedirs_def lookup_bind_node split: if_splits option.splits node.splits)

lemma lookup_rmtree:
  "rmtree d fs = Inr fs' \<Longrightarrow> lookup fs' q = (if is_under d q then None else lookup fs q)"
  using map_of_filter_fst [of "\<lambda>x. \<not> is_under d x" fs q]
  by (auto simp: rmtree_def lookup_def split: option.splits node.splits)





lemma str_nat_nonempty: "str_nat n \<noteq> []"
  by (subst str_nat.simps) simp

lemma digit_char_in: "d < 10 \<Longrightarrow> digit_char d \<in> set ''0123456789''"
  unfolding digit_char_def by (rule nth_mem) simp

lemma str_nat_digits: "c \<in> set (str_nat n) \<Longrightarrow> c \<in> set ''0123456789''"
proof (induction n rule: str_nat.induct)
  case (1 n)
  show ?case
  proof (cases "n < 10")
    case True
    with "1.prems" have "c = digit_char n" by (subst (asm) str_nat.simps) simp
    with True show ?thesis using digit_char_in [of n] by blast
  next
    case False
    with "1.prems" have "c \<in> set (str_nat (n div 10)) \<or> c = digit_char (n mod 10)"
      by (subst (asm) str_nat.simps) auto
    moreover have "n mod 10 < 10" by simp
    ultimately show ?thesis
      using "1.IH" [OF False] digit_char_in [of "n mod 10"] by blast
  qed
qed

lemma str_int_nonempty: "str_int i \<noteq> []"
  by (simp add: str_int_def str_nat_nonempty)

lemma str_int_chars: "c \<in> set (str_int i) \<Longrightarrow> c \<in> set ''-0123456789''"
  using str_nat_digits [of c "nat i"] str_nat_digits [of c "nat (- i)"]
  by (auto simp: str_int_def split: if_splits)






lemma is_under_self: "is_under d d"
  by (simp add: is_under_def)

lemma is_under_child: "is_under d (sep_end d @ x)"
  by (simp add: is_under_def)



subsection \<open>The names of one request\<close>

lemma output_name_hd:
  "\<exists>c rest. output_name p i = c # rest \<and> c \<noteq> CHR ''/'' \<and> c \<noteq> CHR ''t'' \<and> c \<noteq> CHR ''i''"
proof -
  obtain c cs where e: "str_int i = c # cs" using str_int_nonempty [of i] by (cases "str_int i") auto
  then have "c \<in> set (str_int i)" by simp
  then have "c \<noteq> CHR ''/'' \<and> c \<noteq> CHR ''t'' \<and> c \<noteq> CHR ''i''"
    using str_int_chars [of c i] by auto
  with e show ?thesis by (simp add: output_name_def)
qed


lemma final_md_path_eq:
  "final_md_path out p i = sep_end out @ output_name p i @ ''.md''"
  using output_name_hd [of p i] by (auto simp: final_md_path_def path_join_def)

lemma temp_dir_eq: "temp_dir out i = sep_end out @ ''temp_'' @ str_nat i"
  by (simp add: temp_dir_def path_join_def TEMP_DIR_PREFIX_def)

lemma images_dir_eq: "path_join out IMAGES_DIR_NAME = sep_end out @ ''images''"
  by (simp add: path_join_def IMAGES_DIR_NAME_def)































subsection \<open>Preparing the output directory\<close>

lemma images_dir_nonempty: "path_join out IMAGES_DIR_NAME \<noteq> []"
  by (simp add: images_dir_eq)

lemma images_dir_neq_out: "path_join out IMAGES_DIR_NAME \<noteq> out"
proof
  assume "path_join out IMAGES_DIR_NAME = out"
  then have "length (sep_end out @ ''images'') = length out" by (simp add: images_dir_eq)
  moreover have "length out \<le> length (sep_end out)" by (simp add: sep_end_def)
  ultimately show False by simp
qed


lemma prepare_output_keeps:
  assumes "prepare_output out False fs = Inr (fs', evs)" and "lookup fs q \<noteq> None"
  shows "lookup fs' q \<noteq> None"
  using assms
  by (auto simp: prepare_output_def lookup_makedirs split: if_splits sum.splits)









lemma print_summary_fields [simp]:
  "files (print_summary pm s) = files s"
  "engine_calls (print_summary pm s) = engine_calls s"
  "generated_files (print_summary pm s) = generated_files s"
  "skipped_files (print_summary pm s) = skipped_files s"
  "already_converted_files (print_summary pm s) = already_converted_files s"
  by (simp_all add: print_summary_def)


section \<open>Lemmas on the relocation of the markdown file and the images\<close>












lemma temp_dir_nonempty: "temp_dir out i \<noteq> []"
  by (simp add: temp_dir_eq)







section \<open>Lemmas on output names and on what the loop changes\<close>











subsection \<open>The order of the rendered annotations\<close>


lemma page_headers_no_header:
  "\<forall>p \<in> set xs. \<forall>l. p \<noteq> PageHeader l \<Longrightarrow> page_headers xs = []"
  by (induction xs) (auto simp: page_headers_def split: piece.splits)




















lemma batch_ids_have_rows:
  "a \<in> set (sort (remdups (map attachment_id annot)))
     \<Longrightarrow> filter (\<lambda>r. attachment_id r = a) annot \<noteq> []"
  by (auto simp: filter_empty_conv)

lemma process_attachment_console:
  assumes "filter (\<lambda>r. attachment_id r = aid) annot \<noteq> []"
  shows "\<exists>e. bconsole (process_attachment srt label_str output_path annot n_total i aid st)
                = bconsole st @ [Processing i n_total aid, e] \<and> e \<noteq> BatchNoAnnotations"
proof -
  let ?sel = "filter (\<lambda>r. attachment_id r = aid) annot"
  from assms obtain r rs where sel: "?sel = r # rs" by (cases ?sel) auto
  show ?thesis
  proof (cases "render_rows None (sort_values srt ?sel)")
    case (Inl e)
    with sel show ?thesis by (simp add: process_attachment_def batch_except_def Let_def)
  next
    case (Inr body)
    show ?thesis
    proof (cases "write_file (path_join output_path (str_int aid @ ''.md''))
                    (concat (map (str_piece label_str) (header_pieces aid r @ body))) (bfiles st)")
      case (Inl e)
      with sel Inr show ?thesis by (simp add: process_attachment_def batch_except_def Let_def)
    next
      case (Inr fs2)
      with sel \<open>render_rows None (sort_values srt ?sel) = Inr body\<close> show ?thesis
        by (simp add: process_attachment_def Let_def)
    qed
  qed
qed

lemma process_loop_console:
  assumes "\<forall>a \<in> set aids. filter (\<lambda>r. attachment_id r = a) annot \<noteq> []"
      and "BatchNoAnnotations \<notin> set (bconsole st)"
  shows "BatchNoAnnotations \<notin> set (bconsole (process_loop srt label_str output_path annot n_total i aids st))"
  using assms
proof (induction aids arbitrary: i st)
  case Nil
  then show ?case by simp
next
  case (Cons a aids)
  from Cons.prems(1) have "filter (\<lambda>r. attachment_id r = a) annot \<noteq> []" by simp
  from process_attachment_console [OF this, of srt label_str output_path n_total i st]
  obtain e where "bconsole (process_attachment srt label_str output_path annot n_total i a st)
                = bconsole st @ [Processing i n_total a, e]" "e \<noteq> BatchNoAnnotations" by blast
  with Cons.prems(2)
  have "BatchNoAnnotations \<notin> set (bconsole (process_attachment srt label_str output_path annot n_total i a st))"
    by auto
  moreover from Cons.prems(1) have "\<forall>a \<in> set aids. filter (\<lambda>r. attachment_id r = a) annot \<noteq> []" by simp
  ultimately show ?case using Cons.IH by simp
qed

lemma failed_lines_no_batch: "BatchNoAnnotations \<notin> set (failed_lines d)"
  by (induction d) (auto simp: failed_lines_def split: outcome.splits)

lemma batch_never_reports_no_annotations:
  assumes "process_all_attachments srt label_str output_path (Some annot) fs = Inr st"
  shows "BatchNoAnnotations \<notin> set (bconsole st)"
proof -
  let ?ids = "remdups (map attachment_id annot)"
  from assms obtain fs1 where fs1: "path_mkdir output_path fs = Inr fs1"
    by (cases "path_mkdir output_path fs") (auto simp: process_all_attachments_def Let_def)
  let ?st0 = "\<lparr>bfiles = fs1, results = [], successful = 0, failed = 0,
               bconsole = [BatchStarting (length ?ids), OutputDirectory output_path, RuleLine]\<rparr>"
  let ?l = "process_loop srt label_str output_path annot (length ?ids) 1 (sort ?ids) ?st0"
  have "\<forall>a \<in> set (sort ?ids). filter (\<lambda>r. attachment_id r = a) annot \<noteq> []"
    using batch_ids_have_rows by blast
  moreover have "BatchNoAnnotations \<notin> set (bconsole ?st0)" by simp
  ultimately have l: "BatchNoAnnotations \<notin> set (bconsole ?l)" by (rule process_loop_console)
  from assms fs1 have "bconsole st = bconsole ?l
        @ [RuleLine, BatchCompleted, SuccessfulCount (successful ?l) (length ?ids),
           FailedCount (failed ?l) (length ?ids)]
        @ (if failed ?l > 0 then FailedAttachments # failed_lines (results ?l) else [])"
    by (auto simp: process_all_attachments_def Let_def)
  with l failed_lines_no_batch show ?thesis by auto
qed

section \<open>Claims on the batch conversion\<close>

subsection \<open>C1: running the batch a second time\<close>




subsection \<open>C6: the page limit at its boundary\<close>

text \<open>
  C6 (amended). With a limit \<open>max_pages\<close> of at least one page, a request that is not
  already converted and whose document has exactly \<open>max_pages\<close> pages passes the page
  check and goes through the conversion step, as it would without a limit; a request whose
  document has \<open>max_pages + 1\<close> pages is skipped as too large, put on the skipped list
  and not converted.
\<close>

theorem page_limit_boundary:
  assumes "0 < mx"
    and "force_rebuild \<or> \<not> path_exists (files s) (final_md_path out pdf1 pid1)"
    and "read_file pdf1 (files s) = Inr b1" and "pr b1 = Some k1" and "int k1 = mx"
    and "force_rebuild \<or> \<not> path_exists (files s) (final_md_path out pdf2 pid2)"
    and "read_file pdf2 (files s) = Inr b2" and "pr b2 = Some k2" and "int k2 = mx + 1"
  shows "loop_body eng pr out (Some mx) force_rebuild n i (pdf1, pid1) s =
             convert_step eng out i pdf1 pid1
               (s\<lparr>console := console s
                    @ [Rule, ConvertingPages (i + 1) n pdf1 mx (output_name pdf1 pid1)]\<rparr>)
       \<and> loop_body eng pr out (Some mx) force_rebuild n i (pdf2, pid2) s =
             Inr (s\<lparr>console := console s @ [SkippingTooManyPages (i + 1) n pdf2 (mx + 1) mx],
                    skipped_files := skipped_files s @ [pdf2]\<rparr>)"
proof -
  from assms(3,4,5) have g1: "get_pdf_page_count pr (files s) pdf1 = (mx, [])"
    by (simp add: get_pdf_page_count_def)
  from assms(7,8,9) have g2: "get_pdf_page_count pr (files s) pdf2 = (mx + 1, [])"
    by (simp add: get_pdf_page_count_def)
  from assms(1,2) g1 have "loop_body eng pr out (Some mx) force_rebuild n i (pdf1, pid1) s =
             convert_step eng out i pdf1 pid1
               (s\<lparr>console := console s
                    @ [Rule, ConvertingPages (i + 1) n pdf1 mx (output_name pdf1 pid1)]\<rparr>)"
    by (auto simp: loop_body_def Let_def)
  moreover from assms(6) g2 have "loop_body eng pr out (Some mx) force_rebuild n i (pdf2, pid2) s =
             Inr (s\<lparr>console := console s @ [SkippingTooManyPages (i + 1) n pdf2 (mx + 1) mx],
                    skipped_files := skipped_files s @ [pdf2]\<rparr>)"
    by (auto simp: loop_body_def Let_def)
  ultimately show ?thesis by simp
qed

theorem page_limit_boundary_witness:
  "loop_body steady_engine byte_count_probe ''o'' (Some 2) False 2 0 (''a.pdf'', 5)
       \<lparr>files = [(''a.pdf'', File ''xy''), (''b.pdf'', File ''xyz'')], engine_calls = 0,
        generated_files = [], skipped_files = [], already_converted_files = [], console = []\<rparr> =
     convert_step steady_engine ''o'' 0 ''a.pdf'' 5
       \<lparr>files = [(''a.pdf'', File ''xy''), (''b.pdf'', File ''xyz'')], engine_calls = 0,
        generated_files = [], skipped_files = [], already_converted_files = [],
        console = [Rule, ConvertingPages 1 2 ''a.pdf'' 2 ''5_a'']\<rparr>
   \<and> loop_body steady_engine byte_count_probe ''o'' (Some 2) False 2 0 (''b.pdf'', 6)
       \<lparr>files = [(''a.pdf'', File ''xy''), (''b.pdf'', File ''xyz'')], engine_calls = 0,
        generated_files = [], skipped_files = [], already_converted_files = [], console = []\<rparr> =
     Inr \<lparr>files = [(''a.pdf'', File ''xy''), (''b.pdf'', File ''xyz'')], engine_calls = 0,
          generated_files = [], skipped_files = [''b.pdf''], already_converted_files = [],
          console = [SkippingTooManyPages 1 2 ''b.pdf'' 3 2]\<rparr>"
proof -
  let ?s = "\<lparr>files = [(''a.pdf'', File ''xy''), (''b.pdf'', File ''xyz'')], engine_calls = 0,
        generated_files = [], skipped_files = [], already_converted_files = [], console = []\<rparr>"
  have a1: "False \<or> \<not> path_exists (files ?s) (final_md_path ''o'' ''a.pdf'' 5)"
    by (simp add: path_exists_def lookup_def final_md_path_eq)
  have a2: "False \<or> \<not> path_exists (files ?s) (final_md_path ''o'' ''b.pdf'' 6)"
    by (simp add: path_exists_def lookup_def final_md_path_eq)
  have r1: "read_file ''a.pdf'' (files ?s) = Inr ''xy''" by (simp add: read_file_def lookup_def)
  have r2: "read_file ''b.pdf'' (files ?s) = Inr ''xyz''" by (simp add: read_file_def lookup_def)
  have p1: "byte_count_probe ''xy'' = Some 2" by (simp add: byte_count_probe_def)
  have p2: "byte_count_probe ''xyz'' = Some 3" by (simp add: byte_count_probe_def)
  have n: "output_name ''a.pdf'' 5 = ''5_a''" by code_simp
  have "(0::int) < 2" "int 2 = 2" "int 3 = 2 + 1" by simp_all
  from page_limit_boundary [where eng = steady_engine and n = 2 and i = 0, OF this(1) a1 r1 p1 this(2) a2 r2 p2 this(3)] n
  show ?thesis by simp
qed

text \<open>
  C6 as stated fails at the limit zero: a document of zero pages has exactly \<open>max_pages\<close>
  pages and is skipped as undetermined, not converted.
\<close>

theorem page_limit_zero_counterexample:
  "loop_body steady_engine (\<lambda>b. Some 0) ''o'' (Some 0) False 1 0 (''a.pdf'', 5)
       \<lparr>files = [(''a.pdf'', File ''xy'')], engine_calls = 0, generated_files = [],
        skipped_files = [], already_converted_files = [], console = []\<rparr> =
     Inr \<lparr>files = [(''a.pdf'', File ''xy'')], engine_calls = 0, generated_files = [],
          skipped_files = [''a.pdf''], already_converted_files = [],
          console = [SkippingUndetermined 1 1 ''a.pdf'']\<rparr>"
  by code_simp

subsection \<open>C3: the two kinds of skipped requests\<close>

text \<open>
  C3 (amended). With a limit \<open>max_pages\<close> that is not negative, a request that is not
  already converted and whose page count could not be read, or is zero, gets the console
  line "could not determine page count"; a request whose page count exceeds the limit gets
  the line "pages > limit". Neither is converted; both are appended to the one list of
  skipped files, and the final summary prints one count for that list.
\<close>

theorem skipped_requests:
  assumes "0 \<le> mx"
    and "force_rebuild \<or> \<not> path_exists (files s) (final_md_path out pdf1 pid1)"
    and "get_pdf_page_count pr (files s) pdf1 = (0, warn1)"
    and "force_rebuild \<or> \<not> path_exists (files s) (final_md_path out pdf2 pid2)"
    and "get_pdf_page_count pr (files s) pdf2 = (pc2, warn2)" and "pc2 > mx"
    and "skipped_files t \<noteq> []"
  shows "loop_body eng pr out (Some mx) force_rebuild n i (pdf1, pid1) s =
           Inr (s\<lparr>console := console s @ warn1 @ [SkippingUndetermined (i + 1) n pdf1],
                  skipped_files := skipped_files s @ [pdf1]\<rparr>)
       \<and> loop_body eng pr out (Some mx) force_rebuild n i (pdf2, pid2) s =
           Inr (s\<lparr>console := console s @ warn2 @ [SkippingTooManyPages (i + 1) n pdf2 pc2 mx],
                  skipped_files := skipped_files s @ [pdf2]\<rparr>)
       \<and> console (print_summary (Some mx) t) =
           console t
           @ [SummaryHeader,
              SummaryConverted (int (length (generated_files t)) - int (length (already_converted_files t)))]
           @ (if already_converted_files t \<noteq> [] then [SummaryAlready (length (already_converted_files t))] else [])
           @ [SummarySkipped (length (skipped_files t)), SummaryTotal (length (generated_files t))]"
  using assms by (auto simp: loop_body_def Let_def print_summary_def)

theorem skipped_requests_witness:
  "loop_body steady_engine byte_count_probe ''o'' (Some 2) False 2 0 (''u.pdf'', 5)
       \<lparr>files = [(''u.pdf'', File []), (''b.pdf'', File ''xyz'')], engine_calls = 0,
        generated_files = [], skipped_files = [], already_converted_files = [], console = []\<rparr> =
     Inr \<lparr>files = [(''u.pdf'', File []), (''b.pdf'', File ''xyz'')], engine_calls = 0,
          generated_files = [], skipped_files = [''u.pdf''], already_converted_files = [],
          console = [PageCountWarning ''u.pdf'', SkippingUndetermined 1 2 ''u.pdf'']\<rparr>
   \<and> loop_body steady_engine byte_count_probe ''o'' (Some 2) False 2 0 (''b.pdf'', 6)
       \<lparr>files = [(''u.pdf'', File []), (''b.pdf'', File ''xyz'')], engine_calls = 0,
        generated_files = [], skipped_files = [], already_converted_files = [], console = []\<rparr> =
     Inr \<lparr>files = [(''u.pdf'', File []), (''b.pdf'', File ''xyz'')], engine_calls = 0,
          generated_files = [], skipped_files = [''b.pdf''], already_converted_files = [],
          console = [SkippingTooManyPages 1 2 ''b.pdf'' 3 2]\<rparr>
   \<and> console (print_summary (Some 2)
         \<lparr>files = [], engine_calls = 0, generated_files = [],
          skipped_files = [''u.pdf'', ''b.pdf''], already_converted_files = [], console = []\<rparr>) =
     [SummaryHeader, SummaryConverted 0, SummarySkipped 2, SummaryTotal 0]"
proof -
  let ?s = "\<lparr>files = [(''u.pdf'', File []), (''b.pdf'', File ''xyz'')], engine_calls = 0,
        generated_files = [], skipped_files = [], already_converted_files = [], console = []\<rparr>"
  let ?t = "\<lparr>files = [], engine_calls = 0, generated_files = [],
          skipped_files = [''u.pdf'', ''b.pdf''], already_converted_files = [], console = []\<rparr>"
  have a1: "False \<or> \<not> path_exists (files ?s) (final_md_path ''o'' ''u.pdf'' 5)"
    by (simp add: path_exists_def lookup_def final_md_path_eq)
  have a2: "False \<or> \<not> path_exists (files ?s) (final_md_path ''o'' ''b.pdf'' 6)"
    by (simp add: path_exists_def lookup_def final_md_path_eq)
  have g1: "get_pdf_page_count byte_count_probe (files ?s) ''u.pdf'' = (0, [PageCountWarning ''u.pdf''])"
    by (simp add: get_pdf_page_count_def read_file_def lookup_def byte_count_probe_def)
  have g2: "get_pdf_page_count byte_count_probe (files ?s) ''b.pdf'' = (3, [])"
    by (simp add: get_pdf_page_count_def read_file_def lookup_def byte_count_probe_def)
  have "(0::int) \<le> 2" "(3::int) > 2" "skipped_files ?t \<noteq> []" by simp_all
  from skipped_requests [where eng = steady_engine and n = 2 and i = 0, OF this(1) a1 g1 a2 g2 this(2) this(3)]
  show ?thesis by simp
qed

text \<open>
  C3 as stated fails: the summary of a run with one undetermined and one oversized request
  is the summary of a run with two oversized requests, a single count of two.
\<close>

theorem summary_merges_skip_categories_counterexample:
  "(case convert_multiple_pdfs_to_md steady_engine byte_count_probe [''u.pdf'', ''b.pdf''] [5, 6] ''o''
           (Some 2) False [(''u.pdf'', File []), (''b.pdf'', File ''xyz'')] 0 of
      Inl e \<Rightarrow> False
    | Inr sa \<Rightarrow>
       (case convert_multiple_pdfs_to_md steady_engine byte_count_probe [''u.pdf'', ''b.pdf''] [5, 6] ''o''
           (Some 2) False [(''u.pdf'', File ''wxyz''), (''b.pdf'', File ''xyz'')] 0 of
          Inl e \<Rightarrow> False
        | Inr sb \<Rightarrow>
            SkippingUndetermined 1 2 ''u.pdf'' \<in> set (console sa)
          \<and> SkippingTooManyPages 1 2 ''u.pdf'' 4 2 \<in> set (console sb)
          \<and> summary_lines sa = [SummaryHeader, SummaryConverted 0, SummarySkipped 2, SummaryTotal 0]
          \<and> summary_lines sb = summary_lines sa
          \<and> skipped_files sa = [''u.pdf'', ''b.pdf'']))"
  by code_simp

text \<open>With a negative limit an unreadable document takes the "too many pages" branch.\<close>

theorem negative_limit_example:
  "loop_body steady_engine byte_count_probe ''o'' (Some (- 1)) False 1 0 (''u.pdf'', 5)
       \<lparr>files = [(''u.pdf'', File [])], engine_calls = 0,
        generated_files = [], skipped_files = [], already_converted_files = [], console = []\<rparr> =
     Inr \<lparr>files = [(''u.pdf'', File [])], engine_calls = 0,
          generated_files = [], skipped_files = [''u.pdf''], already_converted_files = [],
          console = [PageCountWarning ''u.pdf'', SkippingTooManyPages 1 1 ''u.pdf'' 0 (- 1)]\<rparr>"
  by code_simp

subsection \<open>C2: an exception in the conversion step\<close>

text \<open>
  The \<open>except\<close> clause followed by the \<open>finally\<close> clause, when the body of the
  \<open>try\<close> raised and the working directory path is not a regular file.
\<close>

lemma convert_step_failure:
  assumes tc: "try_convert eng out i pdf pid (files s, engine_calls s) = (Inl e, fs1, c1)"
    and nf: "\<forall>c. lookup fs1 (temp_dir out i) \<noteq> Some (File c)"
  shows "\<exists>fs2. convert_step eng out i pdf pid s =
            Inr (s\<lparr>files := fs2, engine_calls := c1,
                   console := console s @ [ErrorConverting pdf (str_exn e)]\<rparr>)
          \<and> \<not> path_exists fs2 (temp_dir out i)"
proof (cases "path_exists fs1 (temp_dir out i)")
  case False
  with tc show ?thesis by (intro exI [of _ fs1]) (simp add: convert_step_def)
next
  case True
  with nf have d: "lookup fs1 (temp_dir out i) = Some Dir"
  proof (cases "lookup fs1 (temp_dir out i)")
    case None
    with True show ?thesis by (simp add: path_exists_def)
  next
    case (Some nd)
    with nf show ?thesis by (cases nd) auto
  qed
  then obtain fs2 where rm: "rmtree (temp_dir out i) fs1 = Inr fs2" by (simp add: rmtree_def)
  then have "lookup fs2 (temp_dir out i) = None" by (simp add: lookup_rmtree is_under_self)
  then have "\<not> path_exists fs2 (temp_dir out i)" by (simp add: path_exists_def)
  with tc True rm show ?thesis by (intro exI [of _ fs2]) (simp add: convert_step_def)
qed

text \<open>
  C2 (amended). An exception raised in the conversion step of a request is caught for that
  request: its message is printed as "Error converting path: message", nothing is added to
  the lists of generated, skipped and already converted files, the working directory is
  removed, and the loop goes on with the next request (unless the removal of the working
  directory raises, which happens when its path is a regular file). The returned list and
  the final summary do not mention the failure.
\<close>

theorem failed_request_is_isolated:
  assumes "force_rebuild \<or> \<not> path_exists (files s) (final_md_path out pdf pid)"
    and "pages_max = None
         \<or> (\<exists>mx. pages_max = Some mx \<and> fst (get_pdf_page_count pr (files s) pdf) \<le> mx
                 \<and> fst (get_pdf_page_count pr (files s) pdf) \<noteq> 0)"
    and "try_convert eng out i pdf pid (files s, engine_calls s) = (Inl e, fs1, c1)"
    and "\<forall>c. lookup fs1 (temp_dir out i) \<noteq> Some (File c)"
  shows "\<exists>s'. loop_body eng pr out pages_max force_rebuild n i (pdf, pid) s = Inr s'
           \<and> (\<exists>evs. console s' = console s @ evs @ [ErrorConverting pdf (str_exn e)])
           \<and> generated_files s' = generated_files s
           \<and> skipped_files s' = skipped_files s
           \<and> already_converted_files s' = already_converted_files s
           \<and> \<not> path_exists (files s') (temp_dir out i)
           \<and> (\<forall>reqs. loop eng pr out pages_max force_rebuild n i ((pdf, pid) # reqs) s =
                        loop eng pr out pages_max force_rebuild n (Suc i) reqs s')"
proof -
  obtain evs where body: "loop_body eng pr out pages_max force_rebuild n i (pdf, pid) s =
      convert_step eng out i pdf pid (s\<lparr>console := console s @ evs\<rparr>)"
  proof (cases pages_max)
    case None
    with assms(1) that show ?thesis by (auto simp: loop_body_def Let_def)
  next
    case (Some mx)
    obtain pc warn where g: "get_pdf_page_count pr (files s) pdf = (pc, warn)"
      by (cases "get_pdf_page_count pr (files s) pdf") auto
    with Some assms(2) have "pc \<le> mx" "pc \<noteq> 0" by auto
    with Some g assms(1) that show ?thesis by (auto simp: loop_body_def Let_def)
  qed
  let ?s = "s\<lparr>console := console s @ evs\<rparr>"
  from assms(3) have "try_convert eng out i pdf pid (files ?s, engine_calls ?s) = (Inl e, fs1, c1)"
    by simp
  from convert_step_failure [OF this assms(4)] obtain fs2 where
    cs: "convert_step eng out i pdf pid ?s =
            Inr (?s\<lparr>files := fs2, engine_calls := c1,
                   console := console ?s @ [ErrorConverting pdf (str_exn e)]\<rparr>)"
    and nt: "\<not> path_exists fs2 (temp_dir out i)" by blast
  let ?s' = "?s\<lparr>files := fs2, engine_calls := c1,
                   console := console ?s @ [ErrorConverting pdf (str_exn e)]\<rparr>"
  from body cs have b: "loop_body eng pr out pages_max force_rebuild n i (pdf, pid) s = Inr ?s'"
    by simp
  then have "\<forall>reqs. loop eng pr out pages_max force_rebuild n i ((pdf, pid) # reqs) s =
                        loop eng pr out pages_max force_rebuild n (Suc i) reqs ?s'" by simp
  moreover have "console ?s' = console s @ evs @ [ErrorConverting pdf (str_exn e)]" by simp
  ultimately show ?thesis using b nt by (intro exI [of _ ?s']) auto
qed

theorem failed_request_is_isolated_witness:
  "\<exists>s'. loop_body failing_engine byte_count_probe ''o'' None False 2 0 (''a.pdf'', 5)
            \<lparr>files = [(''o'', Dir), (''o/images'', Dir), (''a.pdf'', File ''xy'')], engine_calls = 0,
             generated_files = [], skipped_files = [], already_converted_files = [], console = []\<rparr> = Inr s'
       \<and> (\<exists>evs. console s' = evs @ [ErrorConverting ''a.pdf'' ''cannot parse''])
       \<and> generated_files s' = [] \<and> skipped_files s' = [] \<and> already_converted_files s' = []
       \<and> \<not> path_exists (files s') (temp_dir ''o'' 0)"
proof -
  let ?s = "\<lparr>files = [(''o'', Dir), (''o/images'', Dir), (''a.pdf'', File ''xy'')], engine_calls = 0,
             generated_files = [], skipped_files = [], already_converted_files = [], console = []\<rparr>"
  have a: "False \<or> \<not> path_exists (files ?s) (final_md_path ''o'' ''a.pdf'' 5)"
    by (simp add: path_exists_def lookup_def final_md_path_eq)
  have b: "None = None \<or> (\<exists>mx. (None :: int option) = Some mx
       \<and> fst (get_pdf_page_count byte_count_probe (files ?s) ''a.pdf'') \<le> mx
       \<and> fst (get_pdf_page_count byte_count_probe (files ?s) ''a.pdf'') \<noteq> 0)" by simp
  have c: "try_convert failing_engine ''o'' 0 ''a.pdf'' 5 (files ?s, engine_calls ?s) =
     (Inl (EngineError ''cannot parse''),
      [(''o/temp_0'', Dir), (''o/temp_0/images'', Dir), (''o'', Dir), (''o/images'', Dir), (''a.pdf'', File ''xy'')], 1)"
    by code_simp
  have d: "\<forall>c. lookup [(''o/temp_0'', Dir), (''o/temp_0/images'', Dir), (''o'', Dir), (''o/images'', Dir), (''a.pdf'', File ''xy'')] (temp_dir ''o'' 0) \<noteq> Some (File c)"
  proof -
    have "temp_dir ''o'' 0 = ''o/temp_0''" by code_simp
    then show ?thesis by (simp add: lookup_def)
  qed
  from failed_request_is_isolated [where pr = byte_count_probe and n = 2, OF a b c d]
  show ?thesis by auto
qed

text \<open>
  C2 as stated fails: the failure is printed when it happens and recorded nowhere; the
  returned list and the summary of a run with one failing request are those of a run with
  no request.
\<close>

theorem failure_not_in_result_counterexample:
  "(case convert_multiple_pdfs_to_md failing_engine byte_count_probe [''a.pdf''] [5] ''o''
           None False [(''a.pdf'', File ''xy'')] 0 of
      Inl e \<Rightarrow> False
    | Inr sa \<Rightarrow>
       (case convert_multiple_pdfs_to_md failing_engine byte_count_probe [] [] ''o''
           None False [(''a.pdf'', File ''xy'')] 0 of
          Inl e \<Rightarrow> False
        | Inr sb \<Rightarrow>
            ErrorConverting ''a.pdf'' ''cannot parse'' \<in> set (console sa)
          \<and> generated_files sa = [] \<and> skipped_files sa = [] \<and> already_converted_files sa = []
          \<and> summary_lines sa = [SummaryHeader, SummaryConverted 0, SummaryTotal 0]
          \<and> summary_lines sb = summary_lines sa
          \<and> generated_files sb = generated_files sa))"
  by code_simp

subsection \<open>C10: the forced rebuild\<close>

lemma is_under_images_dir: "is_under out (path_join out IMAGES_DIR_NAME)"
  by (simp add: images_dir_eq is_under_child)

text \<open>
  C10. When \<open>force_rebuild\<close> is true and the output directory exists, the whole tree
  of the output directory is deleted before any request is processed: the loop starts on a
  filesystem in which nothing below the output directory is left but the output directory
  itself and its images directory, both created anew and empty, so every earlier markdown
  file and every earlier image is gone; paths outside the output directory are untouched.
\<close>

theorem force_rebuild_deletes_output_tree:
  assumes "lookup fs out = Some Dir" and "out \<noteq> []"
  shows "\<exists>fs'. prepare_output out True fs = Inr (fs', [ForceRebuildDeleting out])
           \<and> (\<forall>q. is_under out q \<longrightarrow>
                  lookup fs' q = (if q = out \<or> q = path_join out IMAGES_DIR_NAME then Some Dir else None))
           \<and> (\<forall>q. \<not> is_under out q \<longrightarrow> lookup fs' q = lookup fs q)
           \<and> (length id_list = length fullpath_list \<longrightarrow>
                convert_multiple_pdfs_to_md eng pr fullpath_list id_list out pages_max True fs calls0 =
                  (case loop eng pr out pages_max True (length fullpath_list) 0 (zip fullpath_list id_list)
                          \<lparr>files = fs', engine_calls = calls0, generated_files = [],
                           skipped_files = [], already_converted_files = [],
                           console = [ForceRebuildDeleting out]\<rparr> of
                     Inl e \<Rightarrow> Inl e
                   | Inr s \<Rightarrow> Inr (print_summary pages_max s)))"
proof -
  let ?img = "path_join out IMAGES_DIR_NAME"
  from assms have ex: "path_exists fs out" by (simp add: path_exists_def)
  from assms(1) obtain fs1 where rm: "rmtree out fs = Inr fs1" by (simp add: rmtree_def)
  have l1: "lookup fs1 q = (if is_under out q then None else lookup fs q)" for q
    using rm by (rule lookup_rmtree)
  have "lookup fs1 ?img = None" using l1 [of ?img] is_under_images_dir by simp
  then obtain fs2 where mk1: "makedirs ?img fs1 = Inr fs2"
    by (simp add: makedirs_def images_dir_nonempty)
  have l2: "lookup fs2 q = (if q = ?img then Some Dir else lookup fs1 q)" for q
    using mk1 by (rule lookup_makedirs)
  have "lookup fs2 out = None" using l2 [of out] l1 [of out] images_dir_neq_out [of out]
    by (simp add: is_under_self)
  then obtain fs3 where mk2: "makedirs out fs2 = Inr fs3"
    using assms(2) by (simp add: makedirs_def)
  have l3: "lookup fs3 q = (if q = out then Some Dir else lookup fs2 q)" for q
    using mk2 by (rule lookup_makedirs)
  have prep: "prepare_output out True fs = Inr (fs3, [ForceRebuildDeleting out])"
    using ex rm mk1 mk2 by (simp add: prepare_output_def)
  have a: "\<forall>q. is_under out q \<longrightarrow>
                  lookup fs3 q = (if q = out \<or> q = ?img then Some Dir else None)"
    by (simp add: l1 l2 l3)
  have b: "\<forall>q. \<not> is_under out q \<longrightarrow> lookup fs3 q = lookup fs q"
    using is_under_self [of out] is_under_images_dir [of out] by (auto simp: l1 l2 l3)
  have c: "length id_list = length fullpath_list \<longrightarrow>
                convert_multiple_pdfs_to_md eng pr fullpath_list id_list out pages_max True fs calls0 =
                  (case loop eng pr out pages_max True (length fullpath_list) 0 (zip fullpath_list id_list)
                          \<lparr>files = fs3, engine_calls = calls0, generated_files = [],
                           skipped_files = [], already_converted_files = [],
                           console = [ForceRebuildDeleting out]\<rparr> of
                     Inl e \<Rightarrow> Inl e
                   | Inr s \<Rightarrow> Inr (print_summary pages_max s))"
    using prep by (simp add: convert_multiple_pdfs_to_md_def)
  from prep a b c show ?thesis by blast
qed

theorem force_rebuild_deletes_output_tree_witness:
  "\<exists>fs'. prepare_output ''o'' True
            [(''o'', Dir), (''o/images'', Dir), (''o/images/5_a.png'', File ''A''),
             (''o/9_old.md'', File ''old''), (''a.pdf'', File ''xy'')]
          = Inr (fs', [ForceRebuildDeleting ''o''])
      \<and> lookup fs' ''o/9_old.md'' = None \<and> lookup fs' ''o/images/5_a.png'' = None
      \<and> lookup fs' ''o/images'' = Some Dir \<and> lookup fs' ''o'' = Some Dir
      \<and> lookup fs' ''a.pdf'' = Some (File ''xy'')"
proof -
  let ?fs = "[(''o'', Dir), (''o/images'', Dir), (''o/images/5_a.png'', File ''A''),
             (''o/9_old.md'', File ''old''), (''a.pdf'', File ''xy'')]"
  have a: "lookup ?fs ''o'' = Some Dir" by (simp add: lookup_def)
  have b: "''o'' \<noteq> []" by simp
  have u: "is_under ''o'' ''o/9_old.md''" "is_under ''o'' ''o/images/5_a.png''"
    "is_under ''o'' ''o/images''" "is_under ''o'' ''o''" "\<not> is_under ''o'' ''a.pdf''"
    by (simp_all add: is_under_def sep_end_def)
  have i: "path_join ''o'' IMAGES_DIR_NAME = ''o/images''"
    by (simp add: path_join_def sep_end_def IMAGES_DIR_NAME_def)
  from force_rebuild_deletes_output_tree [OF a b, where id_list = "[]" and fullpath_list = "[]"]
  obtain fs' where "prepare_output ''o'' True ?fs = Inr (fs', [ForceRebuildDeleting ''o''])"
    and "\<forall>q. is_under ''o'' q \<longrightarrow>
                  lookup fs' q = (if q = ''o'' \<or> q = path_join ''o'' IMAGES_DIR_NAME then Some Dir else None)"
    and "\<forall>q. \<not> is_under ''o'' q \<longrightarrow> lookup fs' q = lookup ?fs q"
    by blast
  with u i show ?thesis by (intro exI [of _ fs']) (simp add: lookup_def)
qed

subsection \<open>C9: loading the module\<close>

text \<open>
  C9. Loading the batch conversion module fails before any request is processed: the module
  imports \<open>MINERU_CONFIG_DIR\<close> from the configuration module, which binds
  \<open>MINERU_DIR\<close> and no \<open>MINERU_CONFIG_DIR\<close>, so the import raises whatever the
  metadata table, the filesystem and the engine are.
\<close>

theorem module_import_fails:
  "convert_pdf_files_module eng pr metadata fs0 calls0 =
     Inl (ImportError ''cannot import name MINERU_CONFIG_DIR'')
   \<and> ''MINERU_CONFIG_DIR'' \<notin> set config_names \<and> ''MINERU_DIR'' \<in> set config_names"
  by (simp add: convert_pdf_files_module_def config_names_def convert_pdf_files_imports_def)

subsection \<open>C4: image references after a conversion\<close>




text \<open>
  The replacements are textual and follow one another: when one image name is the prefixed
  form of another, a reference rewritten for the first image is rewritten again for the
  second and ends on the wrong file.
\<close>

lemma chained_rewrite_example:
  "(case convert_multiple_pdfs_to_md twin_engine byte_count_probe [''a.pdf''] [5] ''o'' None False
           [(''a.pdf'', File ''xy'')] 0 of
      Inl e \<Rightarrow> False
    | Inr s \<Rightarrow>
        read_file ''o/5_a.md'' (files s) = Inr ''![](images/5_5_a.png)''
      \<and> read_file ''o/images/5_a.png'' (files s) = Inr ''P''
      \<and> read_file ''o/images/5_5_a.png'' (files s) = Inr ''Q'')"
  by code_simp

subsection \<open>C7: the names of the outputs\<close>



subsection \<open>C5: the order of the annotations\<close>




lemma labelless_rows_example:
  "render_rows None (sort_values stable_sort [note_row 7 None ''c'', note_row 7 None ''e''])
     = Inr [PageHeader None,
            TypeHeading ''Highlight'', ColorTag (Some ''#ffd400''), HeadingEnd, TextLine ''c'',
            Separator,
            PageGap, PageHeader None,
            TypeHeading ''Highlight'', ColorTag (Some ''#ffd400''), HeadingEnd, TextLine ''e'',
            Separator]"
  by code_simp

subsection \<open>C8: an attachment without annotations\<close>




end
